theory Spec2Isabelle
  imports Complex_Main
begin

section \<open>Floating-point values of the notebook\<close>

text \<open>
  Every number of \<^verbatim>\<open>alpha_beta_v0_fun.ipynb\<close> is a numpy \<^verbatim>\<open>float64\<close>
  (warnings are switched off in the import cell, so numpy never raises on a division by
  zero or an invalid operation: it returns an infinity or a NaN). The model keeps the
  special values of IEEE-754 and their propagation rules; a finite value is a real number
  and finite arithmetic is exact (no rounding, no overflow, and a zero divisor is read as
  \<open>+0\<close>).
\<close>

datatype npfloat = Fin real | PInf | NInf | NaN

datatype error = IndexError | NameError | ZeroDivisionError
  | InsufficientDataError | DomainSingularityError

text \<open>
  \<open>IndexError\<close>, \<open>NameError\<close> and \<open>ZeroDivisionError\<close> are the exceptions the Python
  code can raise. \<open>InsufficientDataError\<close> and \<open>DomainSingularityError\<close> are error kinds
  named by the specification only: no code path of the notebook constructs them.
\<close>

fun is_nan :: "npfloat \<Rightarrow> bool" where
  "is_nan NaN = True"
| "is_nan _ = False"

fun is_finite :: "npfloat \<Rightarrow> bool" where
  "is_finite (Fin _) = True"
| "is_finite _ = False"

definition inf_of_sign :: "real \<Rightarrow> npfloat" where
  "inf_of_sign s = (if 0 < s then PInf else if s < 0 then NInf else NaN)"

fun fneg :: "npfloat \<Rightarrow> npfloat" where
  "fneg (Fin r) = Fin (- r)"
| "fneg PInf = NInf"
| "fneg NInf = PInf"
| "fneg NaN = NaN"

fun fadd :: "npfloat \<Rightarrow> npfloat \<Rightarrow> npfloat" where
  "fadd NaN _ = NaN"
| "fadd _ NaN = NaN"
| "fadd (Fin a) (Fin b) = Fin (a + b)"
| "fadd (Fin a) PInf = PInf"
| "fadd (Fin a) NInf = NInf"
| "fadd PInf (Fin b) = PInf"
| "fadd NInf (Fin b) = NInf"
| "fadd PInf PInf = PInf"
| "fadd NInf NInf = NInf"
| "fadd PInf NInf = NaN"
| "fadd NInf PInf = NaN"

definition fsub :: "npfloat \<Rightarrow> npfloat \<Rightarrow> npfloat" where
  "fsub a b = fadd a (fneg b)"

fun fmul :: "npfloat \<Rightarrow> npfloat \<Rightarrow> npfloat" where
  "fmul NaN _ = NaN"
| "fmul _ NaN = NaN"
| "fmul (Fin a) (Fin b) = Fin (a * b)"
| "fmul (Fin a) PInf = inf_of_sign a"
| "fmul (Fin a) NInf = inf_of_sign (- a)"
| "fmul PInf (Fin b) = inf_of_sign b"
| "fmul NInf (Fin b) = inf_of_sign (- b)"
| "fmul PInf PInf = PInf"
| "fmul NInf NInf = PInf"
| "fmul PInf NInf = NInf"
| "fmul NInf PInf = NInf"

fun fdiv :: "npfloat \<Rightarrow> npfloat \<Rightarrow> npfloat" where
  "fdiv NaN _ = NaN"
| "fdiv _ NaN = NaN"
| "fdiv (Fin a) (Fin b) = (if b = 0 then inf_of_sign a else Fin (a / b))"
| "fdiv (Fin a) PInf = Fin 0"
| "fdiv (Fin a) NInf = Fin 0"
| "fdiv PInf (Fin b) = (if b < 0 then NInf else PInf)"
| "fdiv NInf (Fin b) = (if b < 0 then PInf else NInf)"
| "fdiv PInf PInf = NaN"
| "fdiv NInf NInf = NaN"
| "fdiv PInf NInf = NaN"
| "fdiv NInf PInf = NaN"

text \<open>\<^verbatim>\<open>x ** n\<close> and \<^verbatim>\<open>pow(x, n)\<close> for the integer exponents the notebook uses (2 and 3).\<close>

fun fpow :: "npfloat \<Rightarrow> nat \<Rightarrow> npfloat" where
  "fpow (Fin r) n = Fin (r ^ n)"
| "fpow PInf n = (if n = 0 then Fin 1 else PInf)"
| "fpow NInf n = (if n = 0 then Fin 1 else if even n then PInf else NInf)"
| "fpow NaN n = (if n = 0 then Fin 1 else NaN)"

text \<open>Comparisons: every comparison with a NaN is false.\<close>

fun flt :: "npfloat \<Rightarrow> npfloat \<Rightarrow> bool" where
  "flt NaN _ = False"
| "flt _ NaN = False"
| "flt (Fin a) (Fin b) = (a < b)"
| "flt (Fin a) PInf = True"
| "flt (Fin a) NInf = False"
| "flt PInf _ = False"
| "flt NInf (Fin b) = True"
| "flt NInf PInf = True"
| "flt NInf NInf = False"

fun fle :: "npfloat \<Rightarrow> npfloat \<Rightarrow> bool" where
  "fle NaN _ = False"
| "fle _ NaN = False"
| "fle (Fin a) (Fin b) = (a \<le> b)"
| "fle (Fin a) PInf = True"
| "fle (Fin a) NInf = False"
| "fle PInf (Fin b) = False"
| "fle PInf PInf = True"
| "fle PInf NInf = False"
| "fle NInf _ = True"

text \<open>\<^verbatim>\<open>np.exp\<close>.\<close>

fun np_exp :: "npfloat \<Rightarrow> npfloat" where
  "np_exp (Fin r) = Fin (exp r)"
| "np_exp PInf = PInf"
| "np_exp NInf = Fin 0"
| "np_exp NaN = NaN"

text \<open>
  \<^verbatim>\<open>scipy.special.expi\<close> is a library function outside the repository. Its values at
  finite non-zero arguments are the parameter \<open>Ei\<close> (the exponential integral); at the
  other arguments it returns what the library documents: \<open>expi(0) = -inf\<close>,
  \<open>expi(inf) = inf\<close>, \<open>expi(-inf) = 0\<close>, \<open>expi(nan) = nan\<close>.
\<close>

fun expi :: "(real \<Rightarrow> real) \<Rightarrow> npfloat \<Rightarrow> npfloat" where
  "expi Ei (Fin r) = (if r = 0 then NInf else Fin (Ei r))"
| "expi Ei PInf = PInf"
| "expi Ei NInf = Fin 0"
| "expi Ei NaN = NaN"

text \<open>
  \<^verbatim>\<open>np.nansum\<close>: NaN entries are replaced by zero, then the array is summed.
  \<^verbatim>\<open>np.nanmean\<close>: that sum divided by the number of entries that are not NaN (for an
  empty or all-NaN array the quotient is \<open>0 / 0\<close>, a NaN, returned with a warning only).
\<close>

definition nan_to_zero :: "npfloat \<Rightarrow> npfloat" where
  "nan_to_zero t = (if is_nan t then Fin 0 else t)"

definition nansum :: "npfloat list \<Rightarrow> npfloat" where
  "nansum ts = foldl fadd (Fin 0) (map nan_to_zero ts)"

definition nanmean :: "npfloat list \<Rightarrow> npfloat" where
  "nanmean ts = (case filter (\<lambda>t. \<not> is_nan t) ts of
       [] \<Rightarrow> NaN
     | k # ks \<Rightarrow> fdiv (nansum ts) (Fin (real (length (k # ks)))))"

text \<open>The finite part of a value: what a finite entry contributes to a sum.\<close>

fun fin_part :: "npfloat \<Rightarrow> real" where
  "fin_part (Fin r) = r"
| "fin_part _ = 0"

section \<open>The objective functions\<close>

text \<open>
  The loop body shared by \<^verbatim>\<open>min_fun\<close> and \<^verbatim>\<open>min_fun_v\<close>:
  \<^verbatim>\<open>pow(2 * x[0] * np.exp(-yvals[i]) - (expi(x[1]) - expi(x[1] * vval**2)) * np.exp(-x[1]), 2)\<close>.
\<close>

definition q4_residual :: "(real \<Rightarrow> real) \<Rightarrow> npfloat \<Rightarrow> npfloat \<Rightarrow> npfloat \<Rightarrow> npfloat \<Rightarrow> npfloat" where
  "q4_residual Ei x0 x1 vval y =
     fpow (fsub (fmul (fmul (Fin 2) x0) (np_exp (fneg y)))
                (fmul (fsub (expi Ei x1) (expi Ei (fmul x1 (fpow vval 2)))) (np_exp (fneg x1)))) 2"

text \<open>
  \<^verbatim>\<open>min_fun(x, vvals, yvals, err)\<close>: the loop runs over \<^verbatim>\<open>range(len(vvals))\<close> and reads
  \<^verbatim>\<open>yvals[i]\<close>, which raises IndexError when \<^verbatim>\<open>yvals\<close> is the shorter array. The
  parameter vector \<^verbatim>\<open>x\<close> has the length of the initial guess (two entries), so it is a
  pair; \<^verbatim>\<open>err\<close> is never read.
\<close>

fun min_fun_loop :: "(real \<Rightarrow> real) \<Rightarrow> npfloat \<times> npfloat \<Rightarrow> npfloat list \<Rightarrow> npfloat list
    \<Rightarrow> nat list \<Rightarrow> npfloat list \<Rightarrow> error + npfloat list" where
  "min_fun_loop Ei x vvals yvals [] res = Inr res"
| "min_fun_loop Ei x vvals yvals (i # ns) res =
     (if i < length yvals
      then min_fun_loop Ei x vvals yvals ns
             (res @ [q4_residual Ei (fst x) (snd x) (vvals ! i) (yvals ! i)])
      else Inl IndexError)"

definition min_fun :: "(real \<Rightarrow> real) \<Rightarrow> npfloat \<times> npfloat \<Rightarrow> npfloat list \<Rightarrow> npfloat list
    \<Rightarrow> npfloat list \<Rightarrow> error + npfloat" where
  "min_fun Ei x vvals yvals err =
     (case min_fun_loop Ei x vvals yvals [0..<length vvals] [] of
        Inl e \<Rightarrow> Inl e
      | Inr res \<Rightarrow> Inr (nansum res))"

text \<open>
  \<^verbatim>\<open>min_fun_v(x, velocities, yvals, err)\<close>: the same loop over the raw velocities, each
  divided by \<^verbatim>\<open>x[2] * 1000.\<close> first.
\<close>

fun min_fun_v_loop :: "(real \<Rightarrow> real) \<Rightarrow> npfloat \<times> npfloat \<times> npfloat \<Rightarrow> npfloat list
    \<Rightarrow> npfloat list \<Rightarrow> nat list \<Rightarrow> npfloat list \<Rightarrow> error + npfloat list" where
  "min_fun_v_loop Ei x velocities yvals [] res = Inr res"
| "min_fun_v_loop Ei x velocities yvals (i # ns) res =
     (let vval = fdiv (velocities ! i) (fmul (snd (snd x)) (Fin 1000))
      in if i < length yvals
         then min_fun_v_loop Ei x velocities yvals ns
                (res @ [q4_residual Ei (fst x) (fst (snd x)) vval (yvals ! i)])
         else Inl IndexError)"

definition min_fun_v :: "(real \<Rightarrow> real) \<Rightarrow> npfloat \<times> npfloat \<times> npfloat \<Rightarrow> npfloat list
    \<Rightarrow> npfloat list \<Rightarrow> npfloat list \<Rightarrow> error + npfloat" where
  "min_fun_v Ei x velocities yvals err =
     (case min_fun_v_loop Ei x velocities yvals [0..<length velocities] [] of
        Inl e \<Rightarrow> Inl e
      | Inr res \<Rightarrow> Inr (nansum res))"

section \<open>The estimators\<close>

text \<open>\<^verbatim>\<open>xs[-1]\<close>: the last element; IndexError on an empty sequence.\<close>

definition py_last :: "'a list \<Rightarrow> error + 'a" where
  "py_last xs = (case xs of [] \<Rightarrow> Inl IndexError | _ # _ \<Rightarrow> Inr (last xs))"

text \<open>
  \<^verbatim>\<open>scipy.optimize.minimize\<close> is a library function outside the repository: it is the
  parameter \<open>minimize\<close>, called with the objective, the initial guess and the bounds, and
  returning \<^verbatim>\<open>res.x\<close> (or the exception the objective raised).

  \<^verbatim>\<open>Q4_min(vvals, yvals, err)\<close> reads the module-level name \<^verbatim>\<open>Yvalues\<close> for its
  initial guess; the module state is the argument \<open>Yvalues\<close> (\<open>None\<close> while the name is
  not bound, which raises NameError).
\<close>

type_synonym bound = "npfloat \<times> npfloat"

type_synonym minimizer2 =
  "(npfloat \<times> npfloat \<Rightarrow> error + npfloat) \<Rightarrow> npfloat \<times> npfloat \<Rightarrow> bound \<times> bound
     \<Rightarrow> error + npfloat \<times> npfloat"

type_synonym minimizer3 =
  "(npfloat \<times> npfloat \<times> npfloat \<Rightarrow> error + npfloat) \<Rightarrow> npfloat \<times> npfloat \<times> npfloat
     \<Rightarrow> bound \<times> bound \<times> bound \<Rightarrow> error + npfloat \<times> npfloat \<times> npfloat"

definition Q4_min :: "minimizer2 \<Rightarrow> (real \<Rightarrow> real) \<Rightarrow> npfloat list option \<Rightarrow> npfloat list
    \<Rightarrow> npfloat list \<Rightarrow> npfloat list \<Rightarrow> error + npfloat \<times> npfloat" where
  "Q4_min minimize Ei Yvalues vvals yvals err =
     (let b0 = Fin 1 in
      case Yvalues of
        None \<Rightarrow> Inl NameError
      | Some Y \<Rightarrow>
          (case py_last Y of
             Inl e \<Rightarrow> Inl e
           | Inr y_last \<Rightarrow>
               let a0 = fdiv (np_exp y_last) (fmul (Fin 2) b0);
                   x0 = (a0, b0);
                   xmin = (Fin 0.01, Fin 0.0001);
                   xmax = (Fin 1000, Fin 20);
                   bnds = ((fst xmin, fst xmax), (snd xmin, snd xmax))
               in minimize (\<lambda>x. min_fun Ei x vvals yvals err) x0 bnds))"

definition Q4_min_v :: "minimizer3 \<Rightarrow> (real \<Rightarrow> real) \<Rightarrow> npfloat list \<Rightarrow> npfloat list
    \<Rightarrow> npfloat \<Rightarrow> npfloat \<Rightarrow> npfloat list \<Rightarrow> error + npfloat \<times> npfloat \<times> npfloat" where
  "Q4_min_v minimize Ei velocities heights h0 V0 err =
     (let Yvalues = map (\<lambda>j. fdiv j h0) heights;
          b0 = Fin 0.01
      in case py_last Yvalues of
           Inl e \<Rightarrow> Inl e
         | Inr y_last \<Rightarrow>
             let a0 = fdiv (np_exp y_last) (fmul (Fin 2) b0);
                 x0 = (a0, b0, fdiv V0 (Fin 1000));
                 xmin = (Fin 0.01, Fin 0.0001, fdiv (fmul V0 (Fin 0.95)) (Fin 1000));
                 xmax = (Fin 1000, Fin 20, fdiv (fmul V0 (Fin 1.05)) (Fin 1000));
                 bnds = ((fst xmin, fst xmax), (fst (snd xmin), fst (snd xmax)),
                         (snd (snd xmin), snd (snd xmax)))
             in case minimize (\<lambda>x. min_fun_v Ei x velocities Yvalues err) x0 bnds of
                  Inl e \<Rightarrow> Inl e
                | Inr out \<Rightarrow> Inr (fst out, fst (snd out), fmul (snd (snd out)) (Fin 1000)))"

subsection \<open>The bounded minimizer: what is assumed of the library\<close>

text \<open>
  What the library promises of a bounded minimisation: when the objective never raises,
  every bound pair has \<open>min \<le> max\<close> and the initial guess is finite, it returns a point
  with every coordinate inside its bound pair.
\<close>

definition in_bound :: "bound \<Rightarrow> npfloat \<Rightarrow> bool" where
  "in_bound bd v = (fle (fst bd) v \<and> fle v (snd bd))"

definition valid_bound :: "bound \<Rightarrow> bool" where
  "valid_bound bd = fle (fst bd) (snd bd)"

definition respects_bounds2 :: "minimizer2 \<Rightarrow> bool" where
  "respects_bounds2 minimize =
     (\<forall>f x0 ba bb.
        (\<forall>x. \<exists>r. f x = Inr r) \<and> valid_bound ba \<and> valid_bound bb
          \<and> is_finite (fst x0) \<and> is_finite (snd x0)
        \<longrightarrow> (\<exists>a b. minimize f x0 (ba, bb) = Inr (a, b) \<and> in_bound ba a \<and> in_bound bb b))"

definition respects_bounds3 :: "minimizer3 \<Rightarrow> bool" where
  "respects_bounds3 minimize =
     (\<forall>f x0 ba bb bc.
        (\<forall>x. \<exists>r. f x = Inr r) \<and> valid_bound ba \<and> valid_bound bb \<and> valid_bound bc
          \<and> is_finite (fst x0) \<and> is_finite (fst (snd x0)) \<and> is_finite (snd (snd x0))
        \<longrightarrow> (\<exists>a b c. minimize f x0 (ba, bb, bc) = Inr (a, b, c)
               \<and> in_bound ba a \<and> in_bound bb b \<and> in_bound bc c))"

text \<open>
  The simplest minimizer that keeps that promise performs no iteration: it evaluates the
  objective once and returns the initial guess moved into the box.
\<close>

definition clip :: "bound \<Rightarrow> npfloat \<Rightarrow> npfloat" where
  "clip bd v = (if flt v (fst bd) then fst bd else if flt (snd bd) v then snd bd else v)"

definition projected_start2 :: minimizer2 where
  "projected_start2 f x0 bnds =
     (let p = (clip (fst bnds) (fst x0), clip (snd bnds) (snd x0))
      in case f p of Inl e \<Rightarrow> Inl e | Inr _ \<Rightarrow> Inr p)"

definition projected_start3 :: minimizer3 where
  "projected_start3 f x0 bnds =
     (let p = (clip (fst bnds) (fst x0), clip (fst (snd bnds)) (fst (snd x0)),
               clip (snd (snd bnds)) (snd (snd x0)))
      in case f p of Inl e \<Rightarrow> Inl e | Inr _ \<Rightarrow> Inr p)"

section \<open>Section 1.1: normalising the data\<close>

text \<open>
  The table \<^verbatim>\<open>data\<close> is a list of rows (velocity, height). The first loop keeps the rows
  whose velocity is \<^verbatim>\<open>> 1.\<close> (a NaN velocity fails the comparison and is dropped too).
\<close>

fun select_rows :: "(npfloat \<times> npfloat) list \<Rightarrow> npfloat list \<times> npfloat list
    \<Rightarrow> npfloat list \<times> npfloat list" where
  "select_rows [] (vel, alt) = (vel, alt)"
| "select_rows ((dv, dh) # rows) (vel, alt) =
     (if flt (Fin 1) dv then select_rows rows (vel @ [dv], alt @ [dh])
      else select_rows rows (vel, alt))"

text \<open>
  \<^verbatim>\<open>if v0 == []: v0 = np.nanmean(vel[0:10])\<close>; the module-level \<^verbatim>\<open>v0\<close> is \<open>None\<close>
  while it still holds the empty list of the upload cell.
\<close>

definition init_velocity :: "npfloat option \<Rightarrow> npfloat list \<Rightarrow> npfloat" where
  "init_velocity v0 vel = (case v0 of None \<Rightarrow> nanmean (take 10 vel) | Some v \<Rightarrow> v)"

text \<open>
  The cell returns the value \<^verbatim>\<open>v0\<close> holds afterwards (it is assigned before
  \<^verbatim>\<open>alt[0]\<close> is read, so it is kept when that read raises) and, when nothing raised,
  \<^verbatim>\<open>(Vvalues, Yvalues, h0)\<close>.
\<close>

definition normalising_cell :: "(npfloat \<times> npfloat) list \<Rightarrow> npfloat option
    \<Rightarrow> npfloat \<times> (error + npfloat list \<times> npfloat list \<times> npfloat)" where
  "normalising_cell data v0 =
     (let (vel, alt) = select_rows data ([], []);
          v0' = init_velocity v0 vel;
          Vvalues = map (\<lambda>v. fdiv v v0') vel
      in (v0',
          case alt of
            [] \<Rightarrow> Inl IndexError
          | a # _ \<Rightarrow>
              let h0 = (if flt a (Fin 1000) then Fin 7.160 else Fin 7160)
              in Inr (Vvalues, map (\<lambda>j. fdiv j h0) alt, h0)))"

section \<open>Section 2.1: smoothing the data\<close>

text \<open>
  One pass: \<^verbatim>\<open>for v in range(1, len(vel)-1)\<close> appends the mean of three neighbours and
  \<^verbatim>\<open>alt[v]\<close> (IndexError when \<^verbatim>\<open>alt\<close> is too short). The cell runs the pass twice and
  then sets \<^verbatim>\<open>v0\<close> as Section 1.1 does.
\<close>

fun smooth_loop :: "npfloat list \<Rightarrow> npfloat list \<Rightarrow> nat list \<Rightarrow> npfloat list \<times> npfloat list
    \<Rightarrow> error + npfloat list \<times> npfloat list" where
  "smooth_loop vel alt [] (vel1, alt1) = Inr (vel1, alt1)"
| "smooth_loop vel alt (v # vs) (vel1, alt1) =
     (let m = fdiv (fadd (fadd (vel ! (v - 1)) (vel ! v)) (vel ! (v + 1))) (Fin 3)
      in if v < length alt then smooth_loop vel alt vs (vel1 @ [m], alt1 @ [alt ! v])
         else Inl IndexError)"

definition smooth_pass :: "npfloat list \<Rightarrow> npfloat list \<Rightarrow> error + npfloat list \<times> npfloat list" where
  "smooth_pass vel alt = smooth_loop vel alt [1..<length vel - 1] ([], [])"

definition smoothing_cell :: "npfloat list \<Rightarrow> npfloat list \<Rightarrow> npfloat option
    \<Rightarrow> error + npfloat list \<times> npfloat list \<times> npfloat" where
  "smoothing_cell vel alt v0 =
     (case smooth_pass vel alt of
        Inl e \<Rightarrow> Inl e
      | Inr (vel1, alt1) \<Rightarrow>
          (case smooth_pass vel1 alt1 of
             Inl e \<Rightarrow> Inl e
           | Inr (vel_smooth, alt_smooth) \<Rightarrow>
               Inr (vel_smooth, alt_smooth, init_velocity v0 vel)))"

section \<open>The final mass and the manual evaluation\<close>

text \<open>
  The mass cell of Section 1, \<^verbatim>\<open>f(mf, mu, cd, rho, A)\<close>, with the module-level names it
  reads as arguments. The widget values \<open>mf\<close>, \<open>mu\<close>, \<open>cd\<close>, \<open>rho\<close>, \<open>A\<close> are Python floats
  (finite reals; the densities offered are positive, and \<open>powr\<close> is Python's power for a
  base that is not negative); \<open>slope\<close> is in degrees. Python's own division raises
  ZeroDivisionError in \<^verbatim>\<open>m0 = (... / pow(rho, 2/3))**3.\<close> and in \<^verbatim>\<open>mf/m0\<close>; the
  divisions of \<^verbatim>\<open>m_txt\<close> have a numpy operand and return an infinity or a NaN instead.
\<close>

definition m_txt :: "real \<Rightarrow> real \<Rightarrow> real \<Rightarrow> real \<Rightarrow> npfloat \<Rightarrow> real \<Rightarrow> npfloat \<Rightarrow> npfloat list
    \<Rightarrow> error + npfloat" where
  "m_txt mu cd rho A alpha_1 slope beta_1 Vvalues =
     (case py_last Vvalues of
        Inl e \<Rightarrow> Inl e
      | Inr v_last \<Rightarrow>
          Inr (fmul
                 (fmul
                    (fpow (fdiv (Fin (0.5 * cd * 1.29 * 7160 * A))
                                (fmul (fmul alpha_1 (Fin (sin (slope * pi / 180))))
                                      (Fin (rho powr (2 / 3))))) 3)
                    (np_exp (fdiv (fneg beta_1) (Fin (1 - mu)))))
                 (fsub (Fin 1) (fpow v_last 2))))"

definition mass_cell_f :: "real \<Rightarrow> real \<Rightarrow> real \<Rightarrow> real \<Rightarrow> real \<Rightarrow> npfloat \<Rightarrow> real \<Rightarrow> npfloat
    \<Rightarrow> npfloat list \<Rightarrow> error + npfloat" where
  "mass_cell_f mf mu cd rho A alpha_1 slope beta_1 Vvalues =
     (if rho powr (2 / 3) = 0 then Inl ZeroDivisionError
      else let m0 = (0.5 * cd * 1.29 * 7160 * A / rho powr (2 / 3)) ^ 3
           in if m0 = 0 then Inl ZeroDivisionError
              else m_txt mu cd rho A alpha_1 slope beta_1 Vvalues)"

text \<open>
  The residual of the manual mode of Section 3.1, \<^verbatim>\<open>f(V0, alpha, beta)\<close>:
  \<^verbatim>\<open>res = min_fun_v([alpha, beta, V0/1000.], vel, yvalues, [])\<close> with
  \<^verbatim>\<open>yvalues = [j / h0 for j in alt]\<close>.
\<close>

definition manual_res :: "(real \<Rightarrow> real) \<Rightarrow> npfloat list \<Rightarrow> npfloat list \<Rightarrow> npfloat \<Rightarrow> npfloat
    \<Rightarrow> npfloat \<Rightarrow> npfloat \<Rightarrow> error + npfloat" where
  "manual_res Ei vel alt h0 V0 alpha beta =
     (let yvalues = map (\<lambda>j. fdiv j h0) alt
      in min_fun_v Ei (alpha, beta, fdiv V0 (Fin 1000)) vel yvalues [])"

section \<open>The specification's formulas\<close>

text \<open>
  The per-point residual as the specification writes it, over the reals:
  \<open>(2 \<alpha> exp(-y) - (Ei(\<beta>) - Ei(\<beta> v\<^sup>2)) exp(-\<beta>))\<^sup>2\<close>.
\<close>

definition spec_residual :: "(real \<Rightarrow> real) \<Rightarrow> real \<Rightarrow> real \<Rightarrow> real \<Rightarrow> real \<Rightarrow> real" where
  "spec_residual Ei alpha beta v y =
     (2 * alpha * exp (- y) - (Ei beta - Ei (beta * v\<^sup>2)) * exp (- beta))\<^sup>2"

section \<open>Properties of the summation\<close>

lemma foldl_fadd_Fin:
  "\<forall>t\<in>set ts. is_finite t \<Longrightarrow> foldl fadd (Fin s) ts = Fin (s + (\<Sum>t\<leftarrow>ts. fin_part t))"
proof (induction ts arbitrary: s)
  case Nil
  show ?case by simp
next
  case (Cons t ts)
  then obtain r where r: "t = Fin r" by (cases t) auto
  from Cons.prems have "\<forall>u\<in>set ts. is_finite u" by simp
  from Cons.IH [OF this] show ?case by (simp add: r add.assoc)
qed

lemma foldl_fadd_PInf_acc:
  "NInf \<notin> set ts \<Longrightarrow> NaN \<notin> set ts \<Longrightarrow> foldl fadd PInf ts = PInf"
proof (induction ts)
  case Nil
  show ?case by simp
next
  case (Cons t ts)
  then show ?case by (cases t) auto
qed

lemma foldl_fadd_PInf:
  "PInf \<in> set ts \<Longrightarrow> NInf \<notin> set ts \<Longrightarrow> NaN \<notin> set ts \<Longrightarrow> foldl fadd (Fin s) ts = PInf"
proof (induction ts arbitrary: s)
  case Nil
  then show ?case by simp
next
  case (Cons t ts)
  show ?case
  proof (cases t)
    case (Fin r)
    with Cons.prems have "PInf \<in> set ts" "NInf \<notin> set ts" "NaN \<notin> set ts" by auto
    from Cons.IH [OF this] show ?thesis by (simp add: Fin)
  next
    case PInf
    with Cons.prems show ?thesis by (simp add: foldl_fadd_PInf_acc)
  next
    case NInf
    with Cons.prems show ?thesis by simp
  next
    case NaN
    with Cons.prems show ?thesis by simp
  qed
qed

lemma fin_part_nan_to_zero: "fin_part (nan_to_zero t) = fin_part t"
  by (cases t) (simp_all add: nan_to_zero_def)

lemma nansum_value:
  assumes "NInf \<notin> set ts"
  shows "nansum ts = (if PInf \<in> set ts then PInf else Fin (\<Sum>t\<leftarrow>ts. fin_part t))"
proof -
  let ?zs = "map nan_to_zero ts"
  have nonan: "NaN \<notin> set ?zs"
    by (auto simp: nan_to_zero_def)
  have noninf: "NInf \<notin> set ?zs"
    using assms by (auto simp: nan_to_zero_def split: if_splits)
  have pinf: "PInf \<in> set ?zs \<longleftrightarrow> PInf \<in> set ts"
    by (auto simp: nan_to_zero_def image_iff split: if_splits)
  have sums: "(\<Sum>t\<leftarrow>?zs. fin_part t) = (\<Sum>t\<leftarrow>ts. fin_part t)"
    by (simp add: comp_def fin_part_nan_to_zero)
  show ?thesis
  proof (cases "PInf \<in> set ts")
    case True
    with pinf nonan noninf show ?thesis
      unfolding nansum_def by (simp add: foldl_fadd_PInf)
  next
    case False
    have "\<forall>t\<in>set ?zs. is_finite t"
    proof
      fix t assume t: "t \<in> set ?zs"
      with nonan noninf pinf False show "is_finite t" by (cases t) auto
    qed
    from foldl_fadd_Fin [OF this, of 0] sums False show ?thesis
      unfolding nansum_def by simp
  qed
qed

section \<open>The two-parameter objective\<close>

lemma min_fun_loop_total:
  "\<forall>i\<in>set ns. i < length yvals \<Longrightarrow>
     min_fun_loop Ei x vvals yvals ns res
       = Inr (res @ map (\<lambda>i. q4_residual Ei (fst x) (snd x) (vvals ! i) (yvals ! i)) ns)"
  by (induction ns arbitrary: res) simp_all

lemma map_nth_zip:
  "length xs \<le> length ys \<Longrightarrow> map (\<lambda>i. f (xs ! i) (ys ! i)) [0..<length xs] = map2 f xs ys"
  by (rule nth_equalityI) simp_all

lemma fpow2_not_NInf: "fpow z 2 \<noteq> NInf"
  by (cases z) simp_all

lemma q4_residual_not_NInf: "q4_residual Ei a b v y \<noteq> NInf"
  unfolding q4_residual_def by (rule fpow2_not_NInf)

lemma min_fun_eq_nansum:
  assumes "length vvals \<le> length yvals"
  shows "min_fun Ei (a, b) vvals yvals err = Inr (nansum (map2 (q4_residual Ei a b) vvals yvals))"
proof -
  have "\<forall>i\<in>set [0..<length vvals]. i < length yvals"
    using assms by simp
  from min_fun_loop_total [OF this, of Ei "(a, b)" vvals "[]"]
    map_nth_zip [OF assms, of "q4_residual Ei a b"]
  show ?thesis by (simp add: min_fun_def)
qed

text \<open>When \<^verbatim>\<open>yvals\<close> is the shorter array the objective raises IndexError.\<close>

lemma min_fun_loop_IndexError:
  "\<exists>i\<in>set ns. \<not> i < length yvals \<Longrightarrow> min_fun_loop Ei x vvals yvals ns res = Inl IndexError"
  by (induction ns arbitrary: res) auto

lemma min_fun_short_yvals:
  assumes "length yvals < length vvals"
  shows "min_fun Ei x vvals yvals err = Inl IndexError"
proof -
  have "\<exists>i\<in>set [0..<length vvals]. \<not> i < length yvals"
    using assms by (intro bexI [of _ "length yvals"]) simp_all
  from min_fun_loop_IndexError [OF this] show ?thesis
    by (simp add: min_fun_def)
qed

lemma q4_residual_finite:
  "be \<noteq> 0 \<Longrightarrow> v \<noteq> 0 \<Longrightarrow>
     q4_residual Ei (Fin al) (Fin be) (Fin v) (Fin y) = Fin (spec_residual Ei al be v y)"
  by (simp add: q4_residual_def spec_residual_def fsub_def)

lemma residuals_no_NInf: "NInf \<notin> set (map2 (q4_residual Ei a b) vs ys)"
  using q4_residual_not_NInf [of Ei a b] by (auto dest: sym)

text \<open>
  Claim C1, as the code has it. For parallel arrays (\<^verbatim>\<open>yvals\<close> at least as long as
  \<^verbatim>\<open>vvals\<close>) \<^verbatim>\<open>min_fun\<close> returns the sum of the per-point terms
  \<open>(2 \<alpha> exp(-y\<^sub>i) - (Ei(\<beta>) - Ei(\<beta> v\<^sub>i\<^sup>2)) exp(-\<beta>))\<^sup>2\<close>, in which a NaN term counts as
  zero. Only NaN terms are left out: a term that is \<open>+inf\<close> stays in the sum and makes
  the objective \<open>+inf\<close>. On finite arguments with \<open>\<beta> \<noteq> 0\<close> and \<open>v \<noteq> 0\<close> the term is the
  specification's residual.
\<close>

theorem min_fun_sums_residuals:
  assumes "length vvals \<le> length yvals"
  shows "min_fun Ei (a, b) vvals yvals err
       = Inr (if PInf \<in> set (map2 (q4_residual Ei a b) vvals yvals) then PInf
              else Fin (\<Sum>t\<leftarrow>map2 (q4_residual Ei a b) vvals yvals. fin_part t))
     \<and> (\<forall>al be v y. be \<noteq> 0 \<and> v \<noteq> 0 \<longrightarrow>
          q4_residual Ei (Fin al) (Fin be) (Fin v) (Fin y) = Fin (spec_residual Ei al be v y))"
proof -
  let ?ts = "map2 (q4_residual Ei a b) vvals yvals"
  from nansum_value [OF residuals_no_NInf, of Ei a b vvals yvals]
    min_fun_eq_nansum [OF assms, of Ei a b err]
  show ?thesis by (simp add: q4_residual_finite)
qed

theorem min_fun_sums_residuals_witness:
  "\<forall>Ei. length [Fin 1, Fin 1] \<le> length [Fin 0, NaN]
     \<and> (1::real) \<noteq> 0
     \<and> q4_residual Ei (Fin 1) (Fin 1) (Fin 1) (Fin 0) = Fin (spec_residual Ei 1 1 1 0)
     \<and> spec_residual Ei 1 1 1 0 = 4
     \<and> q4_residual Ei (Fin 1) (Fin 1) (Fin 1) NaN = NaN
     \<and> min_fun Ei (Fin 1, Fin 1) [Fin 1, Fin 1] [Fin 0, NaN] [] = Inr (Fin 4)"
proof
  fix Ei
  have r1: "spec_residual Ei 1 1 1 0 = 4"
    by (simp add: spec_residual_def)
  have r2: "q4_residual Ei (Fin 1) (Fin 1) (Fin 1) NaN = NaN"
    by (simp add: q4_residual_def fsub_def)
  have len: "length [Fin 1, Fin 1] \<le> length [Fin 0, NaN]" by simp
  from min_fun_sums_residuals [OF len, of Ei "Fin 1" "Fin 1" "[]"] r1 r2
  show "length [Fin 1, Fin 1] \<le> length [Fin 0, NaN]
     \<and> (1::real) \<noteq> 0
     \<and> q4_residual Ei (Fin 1) (Fin 1) (Fin 1) (Fin 0) = Fin (spec_residual Ei 1 1 1 0)
     \<and> spec_residual Ei 1 1 1 0 = 4
     \<and> q4_residual Ei (Fin 1) (Fin 1) (Fin 1) NaN = NaN
     \<and> min_fun Ei (Fin 1, Fin 1) [Fin 1, Fin 1] [Fin 0, NaN] [] = Inr (Fin 4)"
    by simp
qed

text \<open>
  The claim as stated fails where a term is infinite: with one observation of normalised
  velocity 0, \<^verbatim>\<open>expi(0) = -inf\<close> makes the only term \<open>+inf\<close>; it is not excluded, and
  the objective is \<open>+inf\<close>.
\<close>

theorem min_fun_infinite_term_counterexample:
  "\<forall>Ei. q4_residual Ei (Fin 1) (Fin 1) (Fin 0) (Fin 0) = PInf
     \<and> min_fun Ei (Fin 1, Fin 1) [Fin 0] [Fin 0] [] = Inr PInf"
  by (simp add: min_fun_def q4_residual_def fsub_def nansum_def nan_to_zero_def inf_of_sign_def)

section \<open>The three-parameter objective and excluded terms\<close>

lemma scale_back: "fmul (fdiv V0 (Fin 1000)) (Fin 1000) = V0"
  by (cases V0) (simp_all add: inf_of_sign_def)

lemma min_fun_v_loop_eq:
  "\<forall>i\<in>set ns. i < length velocities \<Longrightarrow>
     min_fun_v_loop Ei (a, b, c) velocities yvals ns res
       = min_fun_loop Ei (a, b) (map (\<lambda>v. fdiv v (fmul c (Fin 1000))) velocities) yvals ns res"
  by (induction ns arbitrary: res) simp_all

lemma min_fun_v_eq_min_fun:
  "min_fun_v Ei (a, b, c) velocities yvals err
     = min_fun Ei (a, b) (map (\<lambda>v. fdiv v (fmul c (Fin 1000))) velocities) yvals err"
  by (simp add: min_fun_v_def min_fun_def min_fun_v_loop_eq)

lemma nansum_non_finite:
  assumes "\<forall>t\<in>set ts. \<not> is_finite t" and "NInf \<notin> set ts"
  shows "nansum ts = (if PInf \<in> set ts then PInf else Fin 0)"
proof -
  have "(\<Sum>t\<leftarrow>ts. fin_part t) = 0"
    using assms(1)
  proof (induction ts)
    case Nil
    show ?case by simp
  next
    case (Cons t ts)
    then show ?case by (cases t) auto
  qed
  with nansum_value [OF assms(2)] show ?thesis by simp
qed

text \<open>
  Claim C9, as the code has it. When every per-point term is non-finite, neither
  \<^verbatim>\<open>min_fun\<close> nor \<^verbatim>\<open>min_fun_v\<close> reports an error: the objective is \<open>0\<close> when all
  terms are NaN (all of them excluded by \<^verbatim>\<open>np.nansum\<close>), and \<open>+inf\<close> when one of them
  is infinite.
\<close>

theorem all_terms_excluded_no_error:
  assumes "length vvals \<le> length yvals"
      and "\<forall>t\<in>set (map2 (q4_residual Ei a b) vvals yvals). \<not> is_finite t"
  shows "min_fun Ei (a, b) vvals yvals err
           = Inr (if PInf \<in> set (map2 (q4_residual Ei a b) vvals yvals) then PInf else Fin 0)
     \<and> (\<forall>c velocities. vvals = map (\<lambda>v. fdiv v (fmul c (Fin 1000))) velocities \<longrightarrow>
          min_fun_v Ei (a, b, c) velocities yvals err
            = Inr (if PInf \<in> set (map2 (q4_residual Ei a b) vvals yvals) then PInf else Fin 0))"
proof -
  from nansum_non_finite [OF assms(2) residuals_no_NInf] min_fun_eq_nansum [OF assms(1), of Ei a b err]
  have "min_fun Ei (a, b) vvals yvals err
           = Inr (if PInf \<in> set (map2 (q4_residual Ei a b) vvals yvals) then PInf else Fin 0)"
    by simp
  moreover have "min_fun_v Ei (a, b, c) velocities yvals err = min_fun Ei (a, b) vvals yvals err"
    if "vvals = map (\<lambda>v. fdiv v (fmul c (Fin 1000))) velocities" for c velocities
    unfolding that by (rule min_fun_v_eq_min_fun)
  ultimately show ?thesis
    by metis
qed

text \<open>
  With a NaN height the only term is NaN: both objectives return the residual \<open>0\<close>, not
  a DomainSingularityError.
\<close>

theorem all_nan_residual_zero_counterexample:
  "\<forall>Ei. q4_residual Ei (Fin 1) (Fin 1) (Fin 1) NaN = NaN
     \<and> min_fun Ei (Fin 1, Fin 1) [Fin 1] [NaN] [] = Inr (Fin 0)
     \<and> min_fun_v Ei (Fin 1, Fin 1, Fin 1) [Fin 1000] [NaN] [] = Inr (Fin 0)"
  by (simp add: min_fun_def min_fun_v_def q4_residual_def fsub_def nansum_def nan_to_zero_def)

theorem all_terms_excluded_no_error_witness:
  "\<forall>Ei. length [Fin 1] \<le> length [NaN]
     \<and> \<not> is_finite (q4_residual Ei (Fin 1) (Fin 1) (Fin 1) NaN)
     \<and> min_fun Ei (Fin 1, Fin 1) [Fin 1] [NaN] [] = Inr (Fin 0)
     \<and> min_fun_v Ei (Fin 1, Fin 1, Fin (1 / 1000)) [Fin 1] [NaN] [] = Inr (Fin 0)"
proof
  fix Ei
  have r: "q4_residual Ei (Fin 1) (Fin 1) (Fin 1) NaN = NaN"
    by (simp add: q4_residual_def fsub_def)
  have len: "length [Fin 1] \<le> length [NaN]" by simp
  have nf: "\<forall>t\<in>set (map2 (q4_residual Ei (Fin 1) (Fin 1)) [Fin 1] [NaN]). \<not> is_finite t"
    by (simp add: r)
  have v: "[Fin 1] = map (\<lambda>v. fdiv v (fmul (Fin (1 / 1000)) (Fin 1000))) [Fin 1]"
    by simp
  from all_terms_excluded_no_error [OF len nf, of "[]"] r v
  show "length [Fin 1] \<le> length [NaN]
     \<and> \<not> is_finite (q4_residual Ei (Fin 1) (Fin 1) (Fin 1) NaN)
     \<and> min_fun Ei (Fin 1, Fin 1) [Fin 1] [NaN] [] = Inr (Fin 0)
     \<and> min_fun_v Ei (Fin 1, Fin 1, Fin (1 / 1000)) [Fin 1] [NaN] [] = Inr (Fin 0)"
    by simp
qed

section \<open>The two-parameter estimator\<close>

lemma clip_in_bound:
  assumes "valid_bound bd" and "is_finite v"
  shows "in_bound bd (clip bd v)"
proof -
  obtain lo hi where bd: "bd = (lo, hi)" by (cases bd)
  obtain r where v: "v = Fin r" using assms(2) by (cases v) auto
  from assms(1) show ?thesis
    unfolding bd v valid_bound_def in_bound_def clip_def
    by (cases lo; cases hi) auto
qed

lemma respects_bounds2_projected_start2: "respects_bounds2 projected_start2"
  unfolding respects_bounds2_def
proof (intro allI impI)
  fix f :: "npfloat \<times> npfloat \<Rightarrow> error + npfloat" and x0 :: "npfloat \<times> npfloat" and ba bb :: bound
  assume h: "(\<forall>x. \<exists>r. f x = Inr r) \<and> valid_bound ba \<and> valid_bound bb
          \<and> is_finite (fst x0) \<and> is_finite (snd x0)"
  let ?p = "(clip ba (fst x0), clip bb (snd x0))"
  from h obtain r where "f ?p = Inr r" by blast
  then have "projected_start2 f x0 (ba, bb) = Inr ?p"
    by (simp add: projected_start2_def)
  moreover from h have "in_bound ba (clip ba (fst x0))" "in_bound bb (clip bb (snd x0))"
    by (simp_all add: clip_in_bound)
  ultimately show "\<exists>a b. projected_start2 f x0 (ba, bb) = Inr (a, b) \<and> in_bound ba a \<and> in_bound bb b"
    by blast
qed

lemma respects_bounds3_projected_start3: "respects_bounds3 projected_start3"
  unfolding respects_bounds3_def
proof (intro allI impI)
  fix f :: "npfloat \<times> npfloat \<times> npfloat \<Rightarrow> error + npfloat" and x0 :: "npfloat \<times> npfloat \<times> npfloat"
    and ba bb bc :: bound
  assume h: "(\<forall>x. \<exists>r. f x = Inr r) \<and> valid_bound ba \<and> valid_bound bb \<and> valid_bound bc
          \<and> is_finite (fst x0) \<and> is_finite (fst (snd x0)) \<and> is_finite (snd (snd x0))"
  let ?p = "(clip ba (fst x0), clip bb (fst (snd x0)), clip bc (snd (snd x0)))"
  from h obtain r where "f ?p = Inr r" by blast
  then have "projected_start3 f x0 (ba, bb, bc) = Inr ?p"
    by (simp add: projected_start3_def)
  moreover from h have "in_bound ba (clip ba (fst x0))" "in_bound bb (clip bb (fst (snd x0)))"
      "in_bound bc (clip bc (snd (snd x0)))"
    by (simp_all add: clip_in_bound)
  ultimately show "\<exists>a b c. projected_start3 f x0 (ba, bb, bc) = Inr (a, b, c)
      \<and> in_bound ba a \<and> in_bound bb b \<and> in_bound bc c"
    by blast
qed

lemma min_fun_total:
  "length vvals \<le> length yvals \<Longrightarrow> \<exists>r. min_fun Ei x vvals yvals err = Inr r"
  using min_fun_eq_nansum [of vvals yvals Ei "fst x" "snd x" err] by simp

lemma min_fun_v_total:
  "length velocities \<le> length yvals \<Longrightarrow> \<exists>r. min_fun_v Ei x velocities yvals err = Inr r"
  using min_fun_v_eq_min_fun [of Ei "fst x" "fst (snd x)" "snd (snd x)" velocities yvals err]
    min_fun_total [of "map (\<lambda>v. fdiv v (fmul (snd (snd x)) (Fin 1000))) velocities" yvals Ei "(fst x, fst (snd x))" err]
  by simp

lemma Q4_min_call:
  "Y \<noteq> [] \<Longrightarrow>
   Q4_min minimize Ei (Some Y) vvals yvals err
     = minimize (\<lambda>x. min_fun Ei x vvals yvals err)
         (fdiv (np_exp (last Y)) (Fin 2), Fin 1)
         ((Fin 0.01, Fin 1000), (Fin 0.0001, Fin 20))"
  by (cases Y) (simp_all add: Q4_min_def py_last_def)

text \<open>
  Claim C10. The initial guess of \<^verbatim>\<open>Q4_min\<close> is computed from the last element of the
  module-level array \<^verbatim>\<open>Yvalues\<close>, not from its argument \<^verbatim>\<open>yvals\<close>: the call fails
  with NameError or IndexError when that name is unbound or empty, whatever the
  arguments are; otherwise the minimizer is started at
  \<open>(exp(Yvalues[-1]) / 2, 1)\<close>. Two module states whose last heights differ give two
  different starting points for the same arguments, and there are a minimizer and two
  module states for which the results of the same call differ: the output is not
  determined by the arguments alone.
\<close>
theorem Q4_min_reads_module_Yvalues:
  "Q4_min minimize Ei None vvals yvals err = Inl NameError
   \<and> Q4_min minimize Ei (Some []) vvals yvals err = Inl IndexError
   \<and> (Y \<noteq> [] \<longrightarrow>
        Q4_min minimize Ei (Some Y) vvals yvals err
          = minimize (\<lambda>x. min_fun Ei x vvals yvals err)
              (fdiv (np_exp (last Y)) (Fin 2), Fin 1)
              ((Fin 0.01, Fin 1000), (Fin 0.0001, Fin 20)))
   \<and> (last Y = Fin y \<and> last Y' = Fin y' \<and> y \<noteq> y' \<longrightarrow>
        fdiv (np_exp (last Y)) (Fin 2) \<noteq> fdiv (np_exp (last Y')) (Fin 2))
   \<and> (\<exists>mini Y1 Y2. Q4_min mini Ei (Some Y1) vvals yvals err
                      \<noteq> Q4_min mini Ei (Some Y2) vvals yvals err)"
proof (intro conjI impI)
  show "Q4_min minimize Ei None vvals yvals err = Inl NameError"
    by (simp add: Q4_min_def)
  show "Q4_min minimize Ei (Some []) vvals yvals err = Inl IndexError"
    by (simp add: Q4_min_def py_last_def)
  show "Q4_min minimize Ei (Some Y) vvals yvals err
          = minimize (\<lambda>x. min_fun Ei x vvals yvals err)
              (fdiv (np_exp (last Y)) (Fin 2), Fin 1)
              ((Fin 0.01, Fin 1000), (Fin 0.0001, Fin 20))" if "Y \<noteq> []"
    using that by (rule Q4_min_call)
  show "fdiv (np_exp (last Y)) (Fin 2) \<noteq> fdiv (np_exp (last Y')) (Fin 2)"
    if "last Y = Fin y \<and> last Y' = Fin y' \<and> y \<noteq> y'"
    using that by simp
  have "Q4_min (\<lambda>f x0 bnds. Inr x0) Ei (Some [Fin 0]) vvals yvals err
          \<noteq> Q4_min (\<lambda>f x0 bnds. Inr x0) Ei (Some [Fin 1]) vvals yvals err"
    by (simp add: Q4_min_call)
  then show "\<exists>mini Y1 Y2. Q4_min mini Ei (Some Y1) vvals yvals err
                      \<noteq> Q4_min mini Ei (Some Y2) vvals yvals err"
    by blast
qed

theorem Q4_min_reads_module_Yvalues_witness:
  "\<forall>Ei. [Fin 0] \<noteq> [] \<and> last [Fin 0] = Fin 0 \<and> last [Fin 1] = Fin 1 \<and> (0::real) \<noteq> 1
     \<and> Q4_min (\<lambda>f x0 bnds. Inr x0) Ei (Some [Fin 0]) [Fin 1] [Fin 5] [] = Inr (Fin (1 / 2), Fin 1)
     \<and> Q4_min (\<lambda>f x0 bnds. Inr x0) Ei (Some [Fin 1]) [Fin 1] [Fin 5] [] = Inr (Fin (exp 1 / 2), Fin 1)
     \<and> Fin (1 / 2) \<noteq> Fin (exp 1 / 2)"
proof
  fix Ei
  note t = Q4_min_reads_module_Yvalues [of "\<lambda>f x0 bnds. Inr x0" Ei "[Fin 1]" "[Fin 5]" "[]"]
  from t [of "[Fin 0]" 0 "[Fin 1]" 1] t [of "[Fin 1]" 1 "[Fin 0]" 0]
  show "[Fin 0] \<noteq> [] \<and> last [Fin 0] = Fin 0 \<and> last [Fin 1] = Fin 1 \<and> (0::real) \<noteq> 1
     \<and> Q4_min (\<lambda>f x0 bnds. Inr x0) Ei (Some [Fin 0]) [Fin 1] [Fin 5] [] = Inr (Fin (1 / 2), Fin 1)
     \<and> Q4_min (\<lambda>f x0 bnds. Inr x0) Ei (Some [Fin 1]) [Fin 1] [Fin 5] [] = Inr (Fin (exp 1 / 2), Fin 1)
     \<and> Fin (1 / 2) \<noteq> Fin (exp 1 / 2)"
    by simp
qed

lemma respects_bounds2D:
  assumes "respects_bounds2 minimize" and "\<forall>x. \<exists>r. f x = Inr r"
      and "valid_bound ba" and "valid_bound bb" and "is_finite (fst x0)" and "is_finite (snd x0)"
  shows "\<exists>a b. minimize f x0 (ba, bb) = Inr (a, b) \<and> in_bound ba a \<and> in_bound bb b"
  using assms unfolding respects_bounds2_def by blast

lemma respects_bounds3D:
  assumes "respects_bounds3 minimize" and "\<forall>x. \<exists>r. f x = Inr r"
      and "valid_bound ba" and "valid_bound bb" and "valid_bound bc"
      and "is_finite (fst x0)" and "is_finite (fst (snd x0))" and "is_finite (snd (snd x0))"
  shows "\<exists>a b c. minimize f x0 (ba, bb, bc) = Inr (a, b, c)
           \<and> in_bound ba a \<and> in_bound bb b \<and> in_bound bc c"
  using assms unfolding respects_bounds3_def by blast

text \<open>
  The rest of claim C2 holds of the code: the minimizer is called with the bounds
  \<open>\<alpha> \<in> [0.01, 1000]\<close>, \<open>\<beta> \<in> [0.0001, 20]\<close> and \<open>\<beta>\<^sub>0 = 1\<close>, so a minimizer that respects
  its bounds returns a point inside them.
\<close>

lemma Q4_min_in_bounds:
  assumes "respects_bounds2 minimize" and "Y \<noteq> []" and "last Y = Fin y_last"
      and "length vvals \<le> length yvals"
  shows "\<exists>alpha beta.
           Q4_min minimize Ei (Some Y) vvals yvals err = Inr (alpha, beta)
           \<and> in_bound (Fin 0.01, Fin 1000) alpha \<and> in_bound (Fin 0.0001, Fin 20) beta"
proof -
  have tot: "\<forall>x. \<exists>r. min_fun Ei x vvals yvals err = Inr r"
    using assms(4) by (simp add: min_fun_total)
  have "valid_bound (Fin 0.01, Fin 1000)" "valid_bound (Fin 0.0001, Fin 20)"
    by (simp_all add: valid_bound_def)
  moreover have "is_finite (fst (fdiv (np_exp (last Y)) (Fin 2), Fin 1))"
    "is_finite (snd (fdiv (np_exp (last Y)) (Fin 2), Fin 1))"
    by (simp_all add: assms(3))
  ultimately show ?thesis
    using respects_bounds2D [OF assms(1) tot, of "(Fin 0.01, Fin 1000)" "(Fin 0.0001, Fin 20)"
        "(fdiv (np_exp (last Y)) (Fin 2), Fin 1)"]
    unfolding Q4_min_call [OF assms(2)] by simp
qed

text \<open>
  Claim C2 at a call whose \<^verbatim>\<open>yvals\<close> argument differs from the module-level
  \<^verbatim>\<open>Yvalues\<close>: with \<^verbatim>\<open>Yvalues = [0.]\<close> and \<^verbatim>\<open>yvals = [1.]\<close> the minimizer is
  started at \<open>\<alpha>\<^sub>0 = exp(0) / 2 = 1/2\<close>, not at \<open>exp(1) / 2\<close>, the value the final
  observation passed to the call gives. (The minimizer here returns its initial guess,
  which makes the starting point visible.)
\<close>

theorem Q4_min_start_from_module_state:
  "\<forall>Ei. Q4_min (\<lambda>f x0 bnds. Inr x0) Ei (Some [Fin 0]) [Fin 1] [Fin 1] [] = Inr (Fin (1 / 2), Fin 1)
     \<and> fdiv (np_exp (last [Fin 1])) (fmul (Fin 2) (Fin 1)) = Fin (exp 1 / 2)
     \<and> Fin (exp 1 / 2) \<noteq> Fin (1 / 2)"
  by (simp add: Q4_min_call)

section \<open>The three-parameter estimator\<close>

lemma in_bound_Fin:
  "in_bound (Fin lo, Fin hi) v \<Longrightarrow> \<exists>c. v = Fin c \<and> lo \<le> c \<and> c \<le> hi"
  by (cases v) (simp_all add: in_bound_def)

lemma py_last_nonempty: "xs \<noteq> [] \<Longrightarrow> py_last xs = Inr (last xs)"
  by (cases xs) (simp_all add: py_last_def)

lemma Q4_min_v_call:
  assumes "heights \<noteq> []" and "last heights = Fin hl" and "h \<noteq> 0"
  shows "Q4_min_v minimize Ei velocities heights (Fin h) (Fin s) err
     = (case minimize (\<lambda>x. min_fun_v Ei x velocities (map (\<lambda>j. fdiv j (Fin h)) heights) err)
               (Fin (exp (hl / h) / (2 * 0.01)), Fin 0.01, Fin (s / 1000))
               ((Fin 0.01, Fin 1000), (Fin 0.0001, Fin 20),
                (Fin (0.95 * (s / 1000)), Fin (1.05 * (s / 1000)))) of
          Inl e \<Rightarrow> Inl e
        | Inr out \<Rightarrow> Inr (fst out, fst (snd out), fmul (snd (snd out)) (Fin 1000)))"
proof -
  have l: "py_last (map (\<lambda>j. fdiv j (Fin h)) heights) = Inr (Fin (hl / h))"
    using assms by (simp add: py_last_nonempty last_map)
  show ?thesis
    unfolding Q4_min_v_def Let_def l by (simp add: mult.commute)
qed

text \<open>
  Claim C3. For a positive supplied \<open>V0\<close>, a non-empty height array with a finite last
  height and a non-zero scale height, \<^verbatim>\<open>Q4_min_v\<close> calls the minimizer with the third
  unknown started at \<open>V0 / 1000\<close> and bounded by
  \<open>[0.95 (V0 / 1000), 1.05 (V0 / 1000)]\<close>, next to \<open>\<alpha> \<in> [0.01, 1000]\<close> and
  \<open>\<beta> \<in> [0.0001, 20]\<close>; the third component of the optimum is multiplied by 1000 on
  return, so for a minimizer that respects its bounds the returned \<open>V0\<close> lies within
  5 per cent of the supplied one; and the objective normalises every velocity as
  \<open>velocity\<^sub>i / (x\<^sub>2 * 1000)\<close> before it forms the residuals.
\<close>

theorem Q4_min_v_velocity_scaling:
  assumes "respects_bounds3 minimize"
      and "0 < s" and "heights \<noteq> []" and "last heights = Fin hl" and "h \<noteq> 0"
      and "length velocities \<le> length heights"
  shows "\<exists>a b c.
     minimize (\<lambda>x. min_fun_v Ei x velocities (map (\<lambda>j. fdiv j (Fin h)) heights) err)
        (Fin (exp (hl / h) / (2 * 0.01)), Fin 0.01, Fin (s / 1000))
        ((Fin 0.01, Fin 1000), (Fin 0.0001, Fin 20),
         (Fin (0.95 * (s / 1000)), Fin (1.05 * (s / 1000))))
       = Inr (a, b, Fin c)
     \<and> Q4_min_v minimize Ei velocities heights (Fin h) (Fin s) err = Inr (a, b, Fin (c * 1000))
     \<and> 0.95 * s \<le> c * 1000 \<and> c * 1000 \<le> 1.05 * s
     \<and> (\<forall>x0 x1 x2. min_fun_v Ei (x0, x1, x2) velocities (map (\<lambda>j. fdiv j (Fin h)) heights) err
           = Inr (nansum (map2 (q4_residual Ei x0 x1)
                    (map (\<lambda>v. fdiv v (fmul x2 (Fin 1000))) velocities)
                    (map (\<lambda>j. fdiv j (Fin h)) heights))))"
proof -
  let ?ys = "map (\<lambda>j. fdiv j (Fin h)) heights"
  let ?f = "\<lambda>x. min_fun_v Ei x velocities ?ys err"
  let ?x0 = "(Fin (exp (hl / h) / (2 * 0.01)), Fin 0.01, Fin (s / 1000))"
  let ?bc = "(Fin (0.95 * (s / 1000)), Fin (1.05 * (s / 1000)))"
  have len: "length velocities \<le> length ?ys"
    using assms(6) by simp
  have tot: "\<forall>x. \<exists>r. ?f x = Inr r"
    using len by (simp add: min_fun_v_total)
  have vb: "valid_bound (Fin 0.01, Fin 1000)" "valid_bound (Fin 0.0001, Fin 20)" "valid_bound ?bc"
    using assms(2) by (simp_all add: valid_bound_def)
  have fin: "is_finite (fst ?x0)" "is_finite (fst (snd ?x0))" "is_finite (snd (snd ?x0))"
    by simp_all
  from respects_bounds3D [OF assms(1) tot vb fin]
  obtain a b c' where res: "minimize ?f ?x0 ((Fin 0.01, Fin 1000), (Fin 0.0001, Fin 20), ?bc) = Inr (a, b, c')"
    and inb: "in_bound ?bc c'"
    by blast
  from in_bound_Fin [OF inb] obtain c where c: "c' = Fin c"
    and cb: "0.95 * (s / 1000) \<le> c" "c \<le> 1.05 * (s / 1000)"
    by blast
  have q: "Q4_min_v minimize Ei velocities heights (Fin h) (Fin s) err = Inr (a, b, Fin (c * 1000))"
    unfolding Q4_min_v_call [OF assms(3,4,5)] res c by simp
  have obj: "min_fun_v Ei (x0, x1, x2) velocities ?ys err
           = Inr (nansum (map2 (q4_residual Ei x0 x1)
                    (map (\<lambda>v. fdiv v (fmul x2 (Fin 1000))) velocities) ?ys))" for x0 x1 x2
    unfolding min_fun_v_eq_min_fun by (rule min_fun_eq_nansum) (use len in simp)
  from cb have "0.95 * s \<le> c * 1000" "c * 1000 \<le> 1.05 * s"
    by simp_all
  with res [unfolded c] q obj show ?thesis
    by blast
qed

theorem Q4_min_v_velocity_scaling_witness:
  "\<forall>Ei. respects_bounds3 projected_start3 \<and> (0::real) < 1000 \<and> [Fin 0] \<noteq> []
     \<and> last [Fin 0] = Fin 0 \<and> (7160::real) \<noteq> 0 \<and> length [Fin 1000] \<le> length [Fin 0]
     \<and> Q4_min_v projected_start3 Ei [Fin 1000] [Fin 0] (Fin 7160) (Fin 1000) []
         = Inr (Fin 50, Fin (1 / 100), Fin 1000)
     \<and> (\<exists>a b c. Q4_min_v projected_start3 Ei [Fin 1000] [Fin 0] (Fin 7160) (Fin 1000) []
                  = Inr (a, b, Fin (c * 1000))
              \<and> 0.95 * 1000 \<le> c * 1000 \<and> c * 1000 \<le> 1.05 * 1000)"
proof
  fix Ei
  have h: "(0::real) < 1000" "[Fin 0] \<noteq> []" "last [Fin 0] = Fin 0" "(7160::real) \<noteq> 0"
    "length [Fin 1000] \<le> length [Fin 0]"
    by simp_all
  have tot: "\<exists>r. min_fun_v Ei x [Fin 1000] [Fin 0] [] = Inr r" for x
    by (rule min_fun_v_total) simp
  then obtain r where r: "min_fun_v Ei (Fin 50, Fin (1 / 100), Fin 1) [Fin 1000] [Fin 0] [] = Inr r"
    by blast
  have v: "Q4_min_v projected_start3 Ei [Fin 1000] [Fin 0] (Fin 7160) (Fin 1000) []
         = Inr (Fin 50, Fin (1 / 100), Fin 1000)"
    by (simp add: Q4_min_v_call projected_start3_def clip_def r)
  from Q4_min_v_velocity_scaling [OF respects_bounds3_projected_start3 h, of Ei "[]"]
  have "\<exists>a b c. Q4_min_v projected_start3 Ei [Fin 1000] [Fin 0] (Fin 7160) (Fin 1000) []
                  = Inr (a, b, Fin (c * 1000))
              \<and> 0.95 * 1000 \<le> c * 1000 \<and> c * 1000 \<le> 1.05 * 1000"
    by blast
  with h v respects_bounds3_projected_start3
  show "respects_bounds3 projected_start3 \<and> (0::real) < 1000 \<and> [Fin 0] \<noteq> []
     \<and> last [Fin 0] = Fin 0 \<and> (7160::real) \<noteq> 0 \<and> length [Fin 1000] \<le> length [Fin 0]
     \<and> Q4_min_v projected_start3 Ei [Fin 1000] [Fin 0] (Fin 7160) (Fin 1000) []
         = Inr (Fin 50, Fin (1 / 100), Fin 1000)
     \<and> (\<exists>a b c. Q4_min_v projected_start3 Ei [Fin 1000] [Fin 0] (Fin 7160) (Fin 1000) []
                  = Inr (a, b, Fin (c * 1000))
              \<and> 0.95 * 1000 \<le> c * 1000 \<and> c * 1000 \<le> 1.05 * 1000)"
    by blast
qed

section \<open>The normalising cell and the manual mode\<close>

lemma select_rows_acc:
  "select_rows data (vel, alt)
     = (vel @ map fst (filter (\<lambda>d. flt (Fin 1) (fst d)) data),
        alt @ map snd (filter (\<lambda>d. flt (Fin 1) (fst d)) data))"
proof (induction data arbitrary: vel alt)
  case Nil
  show ?case by simp
next
  case (Cons d data)
  obtain dv dh where d: "d = (dv, dh)" by (cases d)
  show ?case by (simp add: d Cons.IH)
qed

lemma select_rows_filter:
  "select_rows data ([], [])
     = (map fst (filter (\<lambda>d. flt (Fin 1) (fst d)) data),
        map snd (filter (\<lambda>d. flt (Fin 1) (fst d)) data))"
  by (simp add: select_rows_acc)

lemma flt_one_not_fle: "flt (Fin 1) v \<Longrightarrow> \<not> fle v (Fin 1)"
  by (cases v) simp_all

lemma flt_one_cases: "flt (Fin 1) v \<Longrightarrow> (\<exists>r. v = Fin r \<and> 1 < r) \<or> v = PInf"
  by (cases v) simp_all

lemma filter_dropped_rows:
  "filter (\<lambda>d. flt (Fin 1) (fst d)) (filter (\<lambda>d. keep d \<or> \<not> fle (fst d) (Fin 1)) data)
     = filter (\<lambda>d. flt (Fin 1) (fst d)) data"
proof -
  have "(flt (Fin 1) (fst d) \<and> (keep d \<or> \<not> fle (fst d) (Fin 1))) = flt (Fin 1) (fst d)" for d
    using flt_one_not_fle [of "fst d"] by blast
  then show ?thesis by (simp add: conj_commute)
qed

lemma normalising_cell_filter:
  "normalising_cell data v0
     = (let vel = map fst (filter (\<lambda>d. flt (Fin 1) (fst d)) data);
            alt = map snd (filter (\<lambda>d. flt (Fin 1) (fst d)) data);
            v0' = init_velocity v0 vel
        in (v0',
            case alt of
              [] \<Rightarrow> Inl IndexError
            | a # _ \<Rightarrow>
                let h0 = (if flt a (Fin 1000) then Fin 7.160 else Fin 7160)
                in Inr (map (\<lambda>v. fdiv v v0') vel, map (\<lambda>j. fdiv j h0) alt, h0)))"
  by (simp add: normalising_cell_def select_rows_filter Let_def)

text \<open>
  Claim C4. The rows the normalising cell keeps are exactly the rows whose velocity is
  \<^verbatim>\<open>> 1.\<close>, in their order: no kept velocity is \<open>\<le> 1\<close>, and the normalised arrays are
  computed from the kept rows only. Removing from the table any rows whose velocity is
  \<open>\<le> 1\<close> (\<open>keep\<close> chooses which of them stay) changes nothing of what the cell
  returns, the reference velocity included; and when no reference velocity is supplied it
  is the \<^verbatim>\<open>nanmean\<close> of the first 10 kept velocities.
\<close>

theorem dropped_rows_do_not_influence:
  "select_rows data ([], [])
     = (map fst (filter (\<lambda>d. flt (Fin 1) (fst d)) data),
        map snd (filter (\<lambda>d. flt (Fin 1) (fst d)) data))
   \<and> (\<forall>v\<in>set (fst (select_rows data ([], []))). \<not> fle v (Fin 1))
   \<and> (\<forall>Vvalues Yvalues h0. snd (normalising_cell data v0) = Inr (Vvalues, Yvalues, h0) \<longrightarrow>
         Vvalues = map (\<lambda>v. fdiv v (fst (normalising_cell data v0))) (fst (select_rows data ([], [])))
         \<and> Yvalues = map (\<lambda>j. fdiv j h0) (snd (select_rows data ([], []))))
   \<and> normalising_cell (filter (\<lambda>d. keep d \<or> \<not> fle (fst d) (Fin 1)) data) v0
       = normalising_cell data v0
   \<and> fst (normalising_cell data None)
       = nanmean (take 10 (map fst (filter (\<lambda>d. flt (Fin 1) (fst d)) data)))"
proof (intro conjI)
  show "select_rows data ([], [])
     = (map fst (filter (\<lambda>d. flt (Fin 1) (fst d)) data),
        map snd (filter (\<lambda>d. flt (Fin 1) (fst d)) data))"
    by (rule select_rows_filter)
  show "\<forall>v\<in>set (fst (select_rows data ([], []))). \<not> fle v (Fin 1)"
    by (auto simp: select_rows_filter flt_one_not_fle)
  show "\<forall>Vvalues Yvalues h0. snd (normalising_cell data v0) = Inr (Vvalues, Yvalues, h0) \<longrightarrow>
         Vvalues = map (\<lambda>v. fdiv v (fst (normalising_cell data v0))) (fst (select_rows data ([], [])))
         \<and> Yvalues = map (\<lambda>j. fdiv j h0) (snd (select_rows data ([], [])))"
    by (auto simp: normalising_cell_filter select_rows_filter Let_def split: list.splits)
  show "normalising_cell (filter (\<lambda>d. keep d \<or> \<not> fle (fst d) (Fin 1)) data) v0
       = normalising_cell data v0"
    unfolding normalising_cell_filter filter_dropped_rows ..
  show "fst (normalising_cell data None)
       = nanmean (take 10 (map fst (filter (\<lambda>d. flt (Fin 1) (fst d)) data)))"
    by (simp add: normalising_cell_filter init_velocity_def Let_def)
qed


lemma nansum_Cons_Fin: "nansum [Fin a, Fin b] = Fin (a + b)"
  by (simp add: nansum_def nan_to_zero_def)

theorem dropped_rows_do_not_influence_witness:
  "select_rows [(Fin 0, Fin 9000), (Fin 2, Fin 8000), (NaN, Fin 7000), (Fin 1, Fin 6000), (Fin 4, Fin 5000)] ([], [])
     = ([Fin 2, Fin 4], [Fin 8000, Fin 5000])
   \<and> \<not> fle (Fin 2) (Fin 1) \<and> \<not> fle (Fin 4) (Fin 1)
   \<and> normalising_cell [(Fin 0, Fin 9000), (Fin 2, Fin 8000), (NaN, Fin 7000), (Fin 1, Fin 6000), (Fin 4, Fin 5000)] None
       = (Fin 3, Inr ([Fin (2 / 3), Fin (4 / 3)], [Fin (8000 / 7160), Fin (5000 / 7160)], Fin 7160))
   \<and> normalising_cell [(Fin 2, Fin 8000), (NaN, Fin 7000), (Fin 4, Fin 5000)] None
       = normalising_cell [(Fin 0, Fin 9000), (Fin 2, Fin 8000), (NaN, Fin 7000), (Fin 1, Fin 6000), (Fin 4, Fin 5000)] None"
proof -
  let ?data = "[(Fin 0, Fin 9000), (Fin 2, Fin 8000), (NaN, Fin 7000), (Fin 1, Fin 6000), (Fin 4, Fin 5000)]"
  note t = dropped_rows_do_not_influence [of ?data None "\<lambda>d. False"]
  have m: "nanmean [Fin 2, Fin 4] = Fin 3"
    by (simp add: nanmean_def nansum_Cons_Fin)
  have f: "filter (\<lambda>d. False \<or> \<not> fle (fst d) (Fin 1)) ?data = [(Fin 2, Fin 8000), (NaN, Fin 7000), (Fin 4, Fin 5000)]"
    by simp
  have c: "normalising_cell ?data None
       = (Fin 3, Inr ([Fin (2 / 3), Fin (4 / 3)], [Fin (8000 / 7160), Fin (5000 / 7160)], Fin 7160))"
    by (simp add: normalising_cell_def init_velocity_def m)
  from t c show ?thesis
    unfolding f by simp
qed

lemma nanmean_survivors:
  assumes "\<forall>v\<in>set vs. flt (Fin 1) v"
  shows "nanmean vs = (if vs = [] then NaN else if PInf \<in> set vs then PInf
                       else Fin ((\<Sum>v\<leftarrow>vs. fin_part v) / real (length vs)))"
proof (cases vs)
  case Nil
  then show ?thesis by (simp add: nanmean_def)
next
  case (Cons u us)
  have nonan: "\<not> is_nan v" if "v \<in> set vs" for v
    using assms that flt_one_cases [of v] by auto
  have noninf: "NInf \<notin> set vs"
    using assms flt_one_cases [of NInf] by auto
  have "filter (\<lambda>t. \<not> is_nan t) vs = vs"
    using nonan by (simp add: filter_id_conv)
  then have "nanmean vs = fdiv (nansum vs) (Fin (real (length vs)))"
    by (simp add: nanmean_def Cons)
  with nansum_value [OF noninf] Cons show ?thesis
    by simp
qed

text \<open>
  Claim C5, as the code has it. When no reference velocity is supplied, it is the mean of
  the first 10 velocities that survive the filter (of all of them when fewer survive;
  \<open>+inf\<close> when one of them is infinite). When none survives, an empty table included,
  that mean is NaN, assigned without any error; the cell then fails with IndexError when
  it reads \<^verbatim>\<open>alt[0]\<close> for the scale height.
\<close>

theorem reference_velocity_is_mean_of_survivors:
  "fst (normalising_cell data None)
     = (let vs = take 10 (fst (select_rows data ([], [])))
        in if vs = [] then NaN else if PInf \<in> set vs then PInf
           else Fin ((\<Sum>v\<leftarrow>vs. fin_part v) / real (length vs)))
   \<and> (fst (select_rows data ([], [])) = [] \<longrightarrow>
        normalising_cell data None = (NaN, Inl IndexError))"
proof -
  let ?vel = "map fst (filter (\<lambda>d. flt (Fin 1) (fst d)) data)"
  have "\<forall>v\<in>set (take 10 ?vel). flt (Fin 1) v"
    by (auto dest!: in_set_takeD)
  from nanmean_survivors [OF this]
  have "fst (normalising_cell data None)
     = (let vs = take 10 (fst (select_rows data ([], [])))
        in if vs = [] then NaN else if PInf \<in> set vs then PInf
           else Fin ((\<Sum>v\<leftarrow>vs. fin_part v) / real (length vs)))"
    by (simp add: normalising_cell_filter select_rows_filter init_velocity_def Let_def)
  moreover have "normalising_cell data None = (NaN, Inl IndexError)"
    if "fst (select_rows data ([], [])) = []"
    using that by (simp add: normalising_cell_filter select_rows_filter init_velocity_def nanmean_def)
  ultimately show ?thesis by blast
qed

theorem reference_velocity_is_mean_of_survivors_witness:
  "fst (select_rows [(Fin 0, Fin 9000), (Fin 1, Fin 6000)] ([], [])) = []
   \<and> normalising_cell [(Fin 0, Fin 9000), (Fin 1, Fin 6000)] None = (NaN, Inl IndexError)
   \<and> fst (normalising_cell [(Fin 2, Fin 8000), (Fin 0, Fin 9000), (Fin 4, Fin 5000)] None) = Fin 3"
proof -
  have e: "fst (select_rows [(Fin 0, Fin 9000), (Fin 1, Fin 6000)] ([], [])) = []"
    by simp
  have s: "select_rows [(Fin 2, Fin 8000), (Fin 0, Fin 9000), (Fin 4, Fin 5000)] ([], [])
             = ([Fin 2, Fin 4], [Fin 8000, Fin 5000])"
    by simp
  from reference_velocity_is_mean_of_survivors [of "[(Fin 0, Fin 9000), (Fin 1, Fin 6000)]"]
    reference_velocity_is_mean_of_survivors [of "[(Fin 2, Fin 8000), (Fin 0, Fin 9000), (Fin 4, Fin 5000)]"]
    e
  show ?thesis
    unfolding s by simp
qed

text \<open>
  On the empty table the reference velocity is the degenerate value NaN, and the error the
  cell ends with is IndexError, not InsufficientDataError.
\<close>

theorem empty_sequence_no_InsufficientDataError_counterexample:
  "init_velocity None [] = NaN
   \<and> normalising_cell [] None = (NaN, Inl IndexError)
   \<and> snd (normalising_cell [] None) \<noteq> Inl InsufficientDataError"
  by (simp add: normalising_cell_def init_velocity_def nanmean_def)

text \<open>
  The residual of the manual mode and the two-parameter objective. In exact arithmetic
  the divisor \<open>(V0 / 1000) * 1000\<close> that \<^verbatim>\<open>min_fun_v\<close> applies is \<open>V0\<close>, so for every
  \<open>(\<alpha>, \<beta>)\<close> the manual residual is the two-parameter objective on the velocities divided
  by \<open>V0\<close>. This is an identity of the two objective functions only. In \<^verbatim>\<open>float64\<close>
  the product \<^verbatim>\<open>(V0/1000.)*1000.\<close> can differ from \<^verbatim>\<open>V0\<close> by rounding, and the final
  objective the library's minimizer reports (\<^verbatim>\<open>res.fun\<close>) is discarded by \<^verbatim>\<open>Q4_min\<close>,
  which returns \<^verbatim>\<open>res.x\<close> alone: no function of the notebook produces that value.
\<close>

lemma manual_res_eq_min_fun:
  "manual_res Ei vel alt h0 V0 alpha beta
     = min_fun Ei (alpha, beta) (map (\<lambda>v. fdiv v V0) vel) (map (\<lambda>j. fdiv j h0) alt) []"
  by (simp add: manual_res_def min_fun_v_eq_min_fun scale_back)

section \<open>The smoothing cell\<close>

lemma smooth_loop_total:
  "\<forall>v\<in>set vs. v < length alt \<Longrightarrow>
     smooth_loop vel alt vs (vel1, alt1)
       = Inr (vel1 @ map (\<lambda>v. fdiv (fadd (fadd (vel ! (v - 1)) (vel ! v)) (vel ! (v + 1))) (Fin 3)) vs,
              alt1 @ map (\<lambda>v. alt ! v) vs)"
  by (induction vs arbitrary: vel1 alt1) (simp_all add: Let_def)

lemma smooth_pass_total:
  assumes "length vel \<le> length alt"
  shows "smooth_pass vel alt
       = Inr (map (\<lambda>v. fdiv (fadd (fadd (vel ! (v - 1)) (vel ! v)) (vel ! (v + 1))) (Fin 3))
                [1..<length vel - 1],
              map (\<lambda>v. alt ! v) [1..<length vel - 1])"
proof -
  have "\<forall>v\<in>set [1..<length vel - 1]. v < length alt"
    using assms by auto
  from smooth_loop_total [OF this, of vel "[]" "[]"] show ?thesis
    by (simp add: smooth_pass_def)
qed

lemma nth_upt_from_one: "i < n - 2 \<Longrightarrow> [Suc 0..<n - Suc 0] ! i = Suc i"
proof -
  assume "i < n - 2"
  then have "Suc 0 + i < n - Suc 0" by arith
  then have "[Suc 0..<n - Suc 0] ! i = Suc 0 + i" by (rule nth_upt)
  then show ?thesis by simp
qed

text \<open>
  Claim C6, as the code has it. For velocity and height arrays of one length \<open>n\<close>, a
  smoothing pass returns arrays of length \<open>n - 2\<close> (empty when \<open>n < 2\<close>) with
  \<open>output[i] = (input[i] + input[i+1] + input[i+2]) / 3\<close>, paired with the height at the
  middle index \<open>i + 1\<close>. The cell applies the pass twice: its result has length \<open>n - 4\<close>
  when \<open>n \<ge> 4\<close> and is empty when \<open>n < 4\<close>, each smoothed velocity paired with the height
  at index \<open>i + 2\<close> of the original array. The cell never fails: a result of length
  \<open>< 1\<close> is returned as empty arrays.
\<close>

theorem smoothing_passes:
  assumes "length alt = length vel"
  shows "\<exists>vel1 alt1 vel_smooth alt_smooth.
      smooth_pass vel alt = Inr (vel1, alt1)
    \<and> length vel1 = length vel - 2 \<and> length alt1 = length vel - 2
    \<and> (\<forall>i<length vel - 2.
          vel1 ! i = fdiv (fadd (fadd (vel ! i) (vel ! (i + 1))) (vel ! (i + 2))) (Fin 3)
          \<and> alt1 ! i = alt ! (i + 1))
    \<and> smoothing_cell vel alt v0 = Inr (vel_smooth, alt_smooth, init_velocity v0 vel)
    \<and> length vel_smooth = length vel - 4 \<and> length alt_smooth = length vel - 4
    \<and> (\<forall>i<length vel - 4.
          vel_smooth ! i = fdiv (fadd (fadd (vel1 ! i) (vel1 ! (i + 1))) (vel1 ! (i + 2))) (Fin 3)
          \<and> alt_smooth ! i = alt ! (i + 2))"
proof -
  let ?m = "\<lambda>xs v. fdiv (fadd (fadd (xs ! (v - 1)) (xs ! v)) (xs ! (v + 1))) (Fin 3)"
  let ?vel1 = "map (?m vel) [1..<length vel - 1]"
  let ?alt1 = "map (\<lambda>v. alt ! v) [1..<length vel - 1]"
  let ?vs = "map (?m ?vel1) [1..<length ?vel1 - 1]"
  let ?as = "map (\<lambda>v. ?alt1 ! v) [1..<length ?vel1 - 1]"
  have p1: "smooth_pass vel alt = Inr (?vel1, ?alt1)"
    using assms by (simp add: smooth_pass_total)
  have p2: "smooth_pass ?vel1 ?alt1 = Inr (?vs, ?as)"
    by (rule smooth_pass_total) simp
  have cell: "smoothing_cell vel alt v0 = Inr (?vs, ?as, init_velocity v0 vel)"
    unfolding smoothing_cell_def by (simp only: p1 p2 sum.case prod.case)
  have l1: "length ?vel1 = length vel - 2" "length ?alt1 = length vel - 2"
    by simp_all
  have n1: "\<forall>i<length vel - 2. ?vel1 ! i = fdiv (fadd (fadd (vel ! i) (vel ! (i + 1))) (vel ! (i + 2))) (Fin 3)
          \<and> ?alt1 ! i = alt ! (i + 1)"
  proof (intro allI impI)
    fix i assume i: "i < length vel - 2"
    then have len: "i < length [Suc 0..<length vel - Suc 0]" by simp
    from nth_upt_from_one [OF i] len
    show "?vel1 ! i = fdiv (fadd (fadd (vel ! i) (vel ! (i + 1))) (vel ! (i + 2))) (Fin 3)
          \<and> ?alt1 ! i = alt ! (i + 1)"
      by simp
  qed
  have l2: "length ?vs = length vel - 4" "length ?as = length vel - 4"
    by simp_all
  have n2: "\<forall>i<length vel - 4.
          ?vs ! i = fdiv (fadd (fadd (?vel1 ! i) (?vel1 ! (i + 1))) (?vel1 ! (i + 2))) (Fin 3)
          \<and> ?as ! i = alt ! (i + 2)"
  proof (intro allI impI)
    fix i assume i: "i < length vel - 4"
    have i2: "Suc i < length vel - 2" using i by arith
    have i3: "i < length ?vel1 - 2" "i < length [Suc 0..<length ?vel1 - Suc 0]"
      using i by simp_all
    have i4: "Suc i < length [Suc 0..<length vel - Suc 0]"
      using i by simp
    have "?as ! i = ?alt1 ! Suc i"
      using nth_upt_from_one [OF i3(1)] i3(2) by simp
    also have "\<dots> = alt ! (i + 2)"
      using nth_upt_from_one [OF i2] i4 by simp
    finally have a: "?as ! i = alt ! (i + 2)" .
    have "?vs ! i = fdiv (fadd (fadd (?vel1 ! i) (?vel1 ! (i + 1))) (?vel1 ! (i + 2))) (Fin 3)"
      using nth_upt_from_one [OF i3(1)] i3(2) by simp
    with a show "?vs ! i = fdiv (fadd (fadd (?vel1 ! i) (?vel1 ! (i + 1))) (?vel1 ! (i + 2))) (Fin 3)
          \<and> ?as ! i = alt ! (i + 2)"
      by blast
  qed
  from p1 l1 n1 cell l2 n2 show ?thesis
    by blast
qed

theorem smoothing_passes_witness:
  "length [Fin 9, Fin 8, Fin 7, Fin 6, Fin 5] = length [Fin 3, Fin 6, Fin 9, Fin 3, Fin 0]
   \<and> smooth_pass [Fin 3, Fin 6, Fin 9, Fin 3, Fin 0] [Fin 9, Fin 8, Fin 7, Fin 6, Fin 5]
       = Inr ([Fin 6, Fin 6, Fin 4], [Fin 8, Fin 7, Fin 6])
   \<and> smoothing_cell [Fin 3, Fin 6, Fin 9, Fin 3, Fin 0] [Fin 9, Fin 8, Fin 7, Fin 6, Fin 5] (Some (Fin 5))
       = Inr ([Fin (16 / 3)], [Fin 7], Fin 5)
   \<and> (\<exists>vs as. smoothing_cell [Fin 3, Fin 6, Fin 9, Fin 3, Fin 0] [Fin 9, Fin 8, Fin 7, Fin 6, Fin 5] (Some (Fin 5))
                = Inr (vs, as, Fin 5) \<and> length vs = 5 - 4)"
proof -
  let ?vel = "[Fin 3, Fin 6, Fin 9, Fin 3, Fin 0]" and ?alt = "[Fin 9, Fin 8, Fin 7, Fin 6, Fin 5]"
  have len: "length ?alt = length ?vel" by simp
  have u: "[1..<4] = [1, 2, 3]" "[1..<2] = [1]"
    by (simp_all add: upt_rec)
  have p1: "smooth_pass ?vel ?alt = Inr ([Fin 6, Fin 6, Fin 4], [Fin 8, Fin 7, Fin 6])"
    by (simp add: smooth_pass_def u)
  have p2: "smooth_pass [Fin 6, Fin 6, Fin 4] [Fin 8, Fin 7, Fin 6] = Inr ([Fin (16 / 3)], [Fin 7])"
    by (simp add: smooth_pass_def u)
  have c: "smoothing_cell ?vel ?alt (Some (Fin 5)) = Inr ([Fin (16 / 3)], [Fin 7], Fin 5)"
    by (simp add: smoothing_cell_def p1 p2 init_velocity_def)
  from smoothing_passes [OF len, of "Some (Fin 5)"]
  have "\<exists>vs as. smoothing_cell ?vel ?alt (Some (Fin 5)) = Inr (vs, as, Fin 5) \<and> length vs = 5 - 4"
    by (auto simp: init_velocity_def)
  with len p1 c show ?thesis
    by blast
qed

text \<open>
  Three observations: the first pass leaves one, the second leaves none. The length drops
  by 3, not 4, and the cell returns empty arrays instead of failing with
  InsufficientDataError.
\<close>

theorem smoothing_short_sequence_counterexample:
  "smoothing_cell [Fin 3, Fin 3, Fin 3] [Fin 9, Fin 8, Fin 7] (Some (Fin 3)) = Inr ([], [], Fin 3)
   \<and> smoothing_cell [Fin 3, Fin 3, Fin 3] [Fin 9, Fin 8, Fin 7] (Some (Fin 3))
       \<noteq> Inl InsufficientDataError
   \<and> length [Fin 3, Fin 3, Fin 3 :: npfloat] - length ([] :: npfloat list) \<noteq> 4"
proof -
  have u: "[1..<2] = [1]"
    by (simp add: upt_rec)
  have p1: "smooth_pass [Fin 3, Fin 3, Fin 3] [Fin 9, Fin 8, Fin 7] = Inr ([Fin 3], [Fin 8])"
    by (simp add: smooth_pass_def u)
  have p2: "smooth_pass [Fin 3] [Fin 8] = Inr ([], [])"
    by (simp add: smooth_pass_def)
  show ?thesis
    by (simp add: smoothing_cell_def p1 p2 init_velocity_def)
qed

section \<open>The final mass\<close>

lemma m_txt_regular:
  assumes "mu \<noteq> 1" and "a * sin (slope * pi / 180) * rho powr (2 / 3) \<noteq> 0"
      and "Vvalues \<noteq> []" and "last Vvalues = Fin v"
  shows "m_txt mu cd rho A (Fin a) slope (Fin b) Vvalues
     = Inr (Fin ((0.5 * cd * 1.29 * 7160 * A / (a * sin (slope * pi / 180) * rho powr (2 / 3))) ^ 3
                  * exp (- b / (1 - mu)) * (1 - v\<^sup>2)))"
  using assms by (simp add: m_txt_def py_last_nonempty fsub_def)

lemma m_txt_singular_pos:
  assumes "0 < b" and "a * sin (slope * pi / 180) * rho powr (2 / 3) \<noteq> 0"
      and "Vvalues \<noteq> []" and "last Vvalues = Fin v"
  shows "m_txt 1 cd rho A (Fin a) slope (Fin b) Vvalues = Inr (Fin 0)"
  using assms by (simp add: m_txt_def py_last_nonempty fsub_def inf_of_sign_def)

lemma m_txt_singular_nonpos:
  assumes "b \<le> 0" and "a * sin (slope * pi / 180) * rho powr (2 / 3) \<noteq> 0"
      and "cd * A \<noteq> 0" and "Vvalues \<noteq> []" and "last Vvalues = Fin v"
  shows "\<exists>r. m_txt 1 cd rho A (Fin a) slope (Fin b) Vvalues = Inr r \<and> \<not> is_finite r"
  using assms by (auto simp: m_txt_def py_last_nonempty fsub_def inf_of_sign_def)

lemma mass_cell_f_no_raise:
  assumes "0 < rho" and "cd * A \<noteq> 0"
  shows "mass_cell_f mf mu cd rho A alpha_1 slope beta_1 Vvalues
           = m_txt mu cd rho A alpha_1 slope beta_1 Vvalues"
  using assms by (simp add: mass_cell_f_def Let_def)

text \<open>
  Claim C7, as the code has it. For a positive density, \<open>cd A \<noteq> 0\<close>, a finite non-zero
  \<open>\<alpha>\<close>, \<open>sin(slope) \<noteq> 0\<close> and a finite last normalised velocity, the mass cell raises
  nothing. For \<open>\<mu> \<noteq> 1\<close> it computes
  \<open>m\<^sub>f = (0.5 cd 1.29 7160 A / (\<alpha> sin(slope) \<rho>\<^bsup>2/3\<^esup>))\<^sup>3 exp(-\<beta> / (1 - \<mu>)) (1 - v\<^sub>l\<^sub>a\<^sub>s\<^sub>t\<^sup>2)\<close>.
  For \<open>\<mu> = 1\<close> it reports no error either: \<open>\<beta>\<close> is a numpy value (an entry of the
  estimator's result), so the quotient \<open>-\<beta> / 0\<close> is an infinity or a NaN, and the mass
  is \<open>0\<close> when \<open>\<beta> > 0\<close> and a non-finite value when \<open>\<beta> \<le> 0\<close>.
\<close>

theorem final_mass_no_singularity_error:
  assumes "0 < rho" and "cd * A \<noteq> 0" and "a \<noteq> 0" and "sin (slope * pi / 180) \<noteq> 0"
      and "Vvalues \<noteq> []" and "last Vvalues = Fin v"
  shows "(mu \<noteq> 1 \<longrightarrow>
            mass_cell_f mf mu cd rho A (Fin a) slope (Fin b) Vvalues
              = Inr (Fin ((0.5 * cd * 1.29 * 7160 * A / (a * sin (slope * pi / 180) * rho powr (2 / 3))) ^ 3
                          * exp (- b / (1 - mu)) * (1 - v\<^sup>2))))
     \<and> (0 < b \<longrightarrow> mass_cell_f mf 1 cd rho A (Fin a) slope (Fin b) Vvalues = Inr (Fin 0))
     \<and> (b \<le> 0 \<longrightarrow> (\<exists>r. mass_cell_f mf 1 cd rho A (Fin a) slope (Fin b) Vvalues = Inr r
                          \<and> \<not> is_finite r))"
proof -
  have nz: "a * sin (slope * pi / 180) * rho powr (2 / 3) \<noteq> 0"
    using assms(1,3,4) by simp
  show ?thesis
    unfolding mass_cell_f_no_raise [OF assms(1,2)]
    using m_txt_regular [OF _ nz assms(5,6)] m_txt_singular_pos [OF _ nz assms(5,6)]
      m_txt_singular_nonpos [OF _ nz assms(2,5,6)]
    by auto
qed

lemma sin_90_deg: "sin (90 * pi / 180) = (1::real)"
proof -
  have "90 * pi / 180 = pi / 2" by simp
  then show ?thesis by (simp only: sin_pi_half)
qed

theorem final_mass_no_singularity_error_witness:
  "(0::real) < 3500 \<and> (1::real) * 1.21 \<noteq> 0 \<and> (1::real) \<noteq> 0 \<and> sin (90 * pi / 180) \<noteq> (0::real)
   \<and> [Fin (1 / 2)] \<noteq> [] \<and> last [Fin (1 / 2)] = Fin (1 / 2) \<and> (0::real) \<noteq> 1 \<and> (0::real) < 1
   \<and> mass_cell_f 0 0 1 3500 1.21 (Fin 1) 90 (Fin 1) [Fin (1 / 2)]
        = Inr (Fin ((0.5 * 1 * 1.29 * 7160 * 1.21 / (1 * sin (90 * pi / 180) * 3500 powr (2 / 3))) ^ 3
                    * exp (- 1 / (1 - 0)) * (1 - (1 / 2)\<^sup>2)))
   \<and> mass_cell_f 0 1 1 3500 1.21 (Fin 1) 90 (Fin 1) [Fin (1 / 2)] = Inr (Fin 0)"
proof -
  have h: "(0::real) < 3500" "(1::real) * 1.21 \<noteq> 0" "(1::real) \<noteq> 0"
    "sin (90 * pi / 180) \<noteq> (0::real)" "[Fin (1 / 2)] \<noteq> []" "last [Fin (1 / 2)] = Fin (1 / 2)"
    by (simp_all add: sin_90_deg)
  from final_mass_no_singularity_error [OF h, of 0 0 1] final_mass_no_singularity_error [OF h, of 1 0 1] h
  show ?thesis by simp
qed

text \<open>
  At \<open>\<mu> = 1\<close> with the default shape parameters the cell returns the mass \<open>0\<close> for
  \<open>\<beta> = 1\<close>, and \<open>+inf\<close> for \<open>\<beta> = -1\<close>: no DomainSingularityError is reported.
\<close>

theorem final_mass_mu_one_counterexample:
  "mass_cell_f 0 1 1 3500 1.21 (Fin 1) 90 (Fin 1) [Fin (1 / 2)] = Inr (Fin 0)
   \<and> mass_cell_f 0 1 1 3500 1.21 (Fin 1) 90 (Fin 1) [Fin (1 / 2)] \<noteq> Inl DomainSingularityError
   \<and> mass_cell_f 0 1 1 3500 1.21 (Fin 1) 90 (Fin (- 1)) [Fin (1 / 2)] = Inr PInf"
proof -
  have p: "(3500::real) powr (2 / 3) \<noteq> 0" by simp
  have q: "0 < 7160 * 129 * 121 / (2 * 100 * 100 * (3500::real) powr (2 / 3))"
    by simp
  show ?thesis
    using p q by (simp add: mass_cell_f_def m_txt_def py_last_def fsub_def inf_of_sign_def sin_90_deg power2_eq_square)
qed

end
